theory Spec2Isabelle
  imports Complex_Main
begin

section \<open>Data model of the web client (frontend/src/types/index.ts)\<close>

text \<open>
  Coordinates are JavaScript numbers, normalised to the unit square by the drawing
  canvas. They are modelled as exact reals: the values \<open>NaN\<close> and the infinities, which a
  canvas of width zero could produce, are outside the model.
\<close>

record Point =
  pt_x :: real
  pt_y :: real

datatype zone_type = Staff | Customer

record Zone =
  zone_name :: string
  zone_type :: zone_type
  zone_points :: "Point list"
  zone_color :: "nat list"

record Line =
  line_name :: string
  line_start :: Point
  line_end :: Point
  line_color :: "nat list"

record VideoUploadInfo =
  vi_success :: bool
  vi_filename :: string
  vi_width :: nat
  vi_height :: nat
  vi_fps :: nat
  vi_frames :: nat
  vi_preview :: string

record ProcessRequest =
  req_filename :: string
  req_zones :: "Zone list"
  req_lines :: "Line list"

section \<open>The application page (frontend/src/app/page.tsx)\<close>

datatype drawing_mode = ZoneMode | LineMode

text \<open>The React state hooks of \<open>ApplicationPage\<close> that the drawing handlers read and write.\<close>

record page_state =
  videoInfo :: "VideoUploadInfo option"
  zones :: "Zone list"
  lines :: "Line list"
  currentZone :: "Zone option"
  currentLine :: "Line option"
  drawingMode :: "drawing_mode option"
  zoneName :: string
  zoneType :: zone_type
  lineName :: string

definition initial_state :: page_state where
  "initial_state =
     \<lparr>videoInfo = None, zones = [], lines = [], currentZone = None, currentLine = None,
      drawingMode = None, zoneName = [], zoneType = Customer, lineName = []\<rparr>"

text \<open>Decimal rendering of a number inside a template literal.\<close>

definition digit_char :: "nat \<Rightarrow> char" where
  "digit_char d = ''0123456789'' ! d"

fun show_nat :: "nat \<Rightarrow> string" where
  "show_nat n = (if n < 10 then [digit_char n] else show_nat (n div 10) @ [digit_char (n mod 10)])"

declare show_nat.simps [simp del]

text \<open>
  \<open>handleStartZone\<close>. The colour comes from \<open>getRandomColor()\<close>; the random choice is an
  argument of the model. An empty \<open>zoneName\<close> is falsy, so the default name is used.
\<close>

definition handleStartZone :: "nat list \<Rightarrow> page_state \<Rightarrow> page_state" where
  "handleStartZone col s =
     (let name = (if zoneName s \<noteq> [] then zoneName s
                  else ''Zone '' @ show_nat (length (zones s) + 1))
      in s\<lparr>currentZone := Some \<lparr>zone_name = name, zone_type = zoneType s,
                                  zone_points = [], zone_color = col\<rparr>,
             drawingMode := Some ZoneMode,
             zoneName := []\<rparr>)"

text \<open>\<open>handleFinishZone\<close>: nothing happens unless a zone is in progress with three points or more.\<close>

definition handleFinishZone :: "page_state \<Rightarrow> page_state" where
  "handleFinishZone s =
     (case currentZone s of
        Some z \<Rightarrow>
          if 3 \<le> length (zone_points z)
          then s\<lparr>zones := zones s @ [z], currentZone := None, drawingMode := None\<rparr>
          else s
      | None \<Rightarrow> s)"

definition handleStartLine :: "nat list \<Rightarrow> page_state \<Rightarrow> page_state" where
  "handleStartLine col s =
     (let name = (if lineName s \<noteq> [] then lineName s
                  else ''Line '' @ show_nat (length (lines s) + 1))
      in s\<lparr>currentLine := Some \<lparr>line_name = name,
                                  line_start = \<lparr>pt_x = 0, pt_y = 0\<rparr>,
                                  line_end = \<lparr>pt_x = 0, pt_y = 0\<rparr>,
                                  line_color = col\<rparr>,
             drawingMode := Some LineMode,
             lineName := []\<rparr>)"

text \<open>
  \<open>handleCanvasClick\<close>. In line mode the test \<open>!currentLine.start.x && !currentLine.start.y\<close>
  decides whether the click is the start or the end of the line; \<open>!v\<close> holds for the
  number \<open>0\<close>.
\<close>

definition handleCanvasClick :: "Point \<Rightarrow> page_state \<Rightarrow> page_state" where
  "handleCanvasClick p s =
     (case (drawingMode s, currentZone s, currentLine s) of
        (Some ZoneMode, Some z, _) \<Rightarrow>
          s\<lparr>currentZone := Some (z\<lparr>zone_points := zone_points z @ [p]\<rparr>)\<rparr>
      | (Some LineMode, _, Some l) \<Rightarrow>
          if pt_x (line_start l) = 0 \<and> pt_y (line_start l) = 0
          then s\<lparr>currentLine := Some (l\<lparr>line_start := p\<rparr>)\<rparr>
          else s\<lparr>lines := lines s @ [l\<lparr>line_end := p\<rparr>],
                 currentLine := None, drawingMode := None\<rparr>
      | _ \<Rightarrow> s)"

definition handleCanvasRightClick :: "page_state \<Rightarrow> page_state" where
  "handleCanvasRightClick s =
     (case (drawingMode s, currentZone s) of
        (Some ZoneMode, Some z) \<Rightarrow>
          if 3 \<le> length (zone_points z) then handleFinishZone s else s
      | _ \<Rightarrow> s)"

text \<open>\<open>xs.filter((_, i) => i !== index)\<close>\<close>

definition remove_index :: "nat \<Rightarrow> 'a list \<Rightarrow> 'a list" where
  "remove_index i xs = map snd (filter (\<lambda>(j, _). j \<noteq> i) (enumerate 0 xs))"

definition handleDeleteZone :: "nat \<Rightarrow> page_state \<Rightarrow> page_state" where
  "handleDeleteZone i s = s\<lparr>zones := remove_index i (zones s)\<rparr>"

definition handleDeleteLine :: "nat \<Rightarrow> page_state \<Rightarrow> page_state" where
  "handleDeleteLine i s = s\<lparr>lines := remove_index i (lines s)\<rparr>"

definition handleClearAll :: "page_state \<Rightarrow> page_state" where
  "handleClearAll s =
     s\<lparr>zones := [], lines := [], currentZone := None, currentLine := None,
       drawingMode := None\<rparr>"

definition handleUploadComplete :: "VideoUploadInfo \<Rightarrow> page_state \<Rightarrow> page_state" where
  "handleUploadComplete v s = s\<lparr>videoInfo := Some v\<rparr>"

text \<open>
  \<open>handleProcess\<close> starts a job: without an uploaded video it returns at once, otherwise it
  posts the file name with the current zones and lines (\<open>api.processVideo\<close>). The model
  returns the request body.
\<close>

definition handleProcess :: "page_state \<Rightarrow> ProcessRequest option" where
  "handleProcess s =
     (case videoInfo s of
        None \<Rightarrow> None
      | Some v \<Rightarrow> Some \<lparr>req_filename = vi_filename v, req_zones = zones s, req_lines = lines s\<rparr>)"

text \<open>What the user can do on the page, and a session as a list of such events.\<close>

datatype event =
    UploadComplete VideoUploadInfo
  | SetZoneName string
  | SetZoneType zone_type
  | SetLineName string
  | StartZone "nat list"
  | FinishZone
  | StartLine "nat list"
  | CanvasClick Point
  | CanvasRightClick
  | DeleteZone nat
  | DeleteLine nat
  | ClearAll

fun handle :: "event \<Rightarrow> page_state \<Rightarrow> page_state" where
  "handle (UploadComplete v) s = handleUploadComplete v s"
| "handle (SetZoneName n) s = s\<lparr>zoneName := n\<rparr>"
| "handle (SetZoneType t) s = s\<lparr>zoneType := t\<rparr>"
| "handle (SetLineName n) s = s\<lparr>lineName := n\<rparr>"
| "handle (StartZone col) s = handleStartZone col s"
| "handle FinishZone s = handleFinishZone s"
| "handle (StartLine col) s = handleStartLine col s"
| "handle (CanvasClick p) s = handleCanvasClick p s"
| "handle CanvasRightClick s = handleCanvasRightClick s"
| "handle (DeleteZone i) s = handleDeleteZone i s"
| "handle (DeleteLine i) s = handleDeleteLine i s"
| "handle ClearAll s = handleClearAll s"

definition run_events :: "event list \<Rightarrow> page_state \<Rightarrow> page_state" where
  "run_events es s = fold handle es s"

subsection \<open>Notions used to state the properties of the page\<close>

text \<open>Every zone of the zone list has at least three points.\<close>

definition zones_ok :: "page_state \<Rightarrow> bool" where
  "zones_ok s = (\<forall>z \<in> set (zones s). 3 \<le> length (zone_points z))"

text \<open>The point \<open>(0,0)\<close>, which \<open>handleStartLine\<close> uses as the placeholder of a line's
  start and end.\<close>

definition origin :: Point where
  "origin = \<lparr>pt_x = 0, pt_y = 0\<rparr>"

text \<open>The name \<open>handleStartLine\<close> gives the line in progress.\<close>

definition new_line_name :: "page_state \<Rightarrow> string" where
  "new_line_name s =
     (if lineName s \<noteq> [] then lineName s else ''Line '' @ show_nat (length (lines s) + 1))"

text \<open>A run of canvas clicks.\<close>

definition clicks :: "Point list \<Rightarrow> page_state \<Rightarrow> page_state" where
  "clicks ps s = fold handleCanvasClick ps s"

section \<open>The uploader (frontend/src/components/application/VideoUploader.tsx)\<close>

datatype upload_status = Idle | Uploading | Success | Failed

text \<open>
  A JavaScript string is a sequence of UTF-16 code units, modelled as a list of natural
  numbers; \<open>js\<close> gives the string of an ASCII literal.
\<close>

type_synonym js_string = "nat list"

definition js :: "string \<Rightarrow> js_string" where
  "js s = map of_char s"

record uploader_state =
  isDragging :: bool
  uploadProgress :: nat
  isUploading :: bool
  uploadStatus :: upload_status
  error :: "js_string option"

text \<open>\<open>name.split('.')\<close>: the segments between the separators; never an empty list.\<close>

fun split_on :: "'a \<Rightarrow> 'a list \<Rightarrow> 'a list list" where
  "split_on c [] = [[]]"
| "split_on c (a # as) =
     (if a = c then [] # split_on c as
      else (case split_on c as of w # ws \<Rightarrow> (a # w) # ws | [] \<Rightarrow> [[a]]))"

text \<open>\<open>Array.prototype.pop\<close>, for its result: \<open>undefined\<close> on an empty array.\<close>

definition pop :: "'a list \<Rightarrow> 'a option" where
  "pop xs = (if xs = [] then None else Some (last xs))"

text \<open>
  \<open>String.prototype.toLowerCase\<close>. On a string of ASCII code units it maps \<open>A\<close> to \<open>Z\<close>
  (65 to 90) to \<open>a\<close> to \<open>z\<close> and leaves the rest. On any other string the result is that of
  the Unicode case mapping of the JavaScript runtime (which, for one, maps the Kelvin sign
  U+212A to \<open>k\<close>); that mapping is the parameter \<open>unicode_lower\<close> of the model.
\<close>

definition ascii_lower :: "nat \<Rightarrow> nat" where
  "ascii_lower u = (if 65 \<le> u \<and> u \<le> 90 then u + 32 else u)"

definition toLowerCase :: "(js_string \<Rightarrow> js_string) \<Rightarrow> js_string \<Rightarrow> js_string" where
  "toLowerCase unicode_lower s =
     (if list_all (\<lambda>u. u < 128) s then map ascii_lower s else unicode_lower s)"

definition validExtensions :: "js_string list" where
  "validExtensions = [js ''mp4'', js ''avi'', js ''mov'', js ''mkv'']"

text \<open>\<open>file.name.split('.').pop()?.toLowerCase()\<close>\<close>

definition fileExtension :: "(js_string \<Rightarrow> js_string) \<Rightarrow> js_string \<Rightarrow> js_string option" where
  "fileExtension unicode_lower name =
     map_option (toLowerCase unicode_lower) (pop (split_on (of_char CHR ''.'') name))"

text \<open>The message of the rejection; 34 is the double quote.\<close>

definition invalid_type_message :: "js_string option \<Rightarrow> js_string" where
  "invalid_type_message ext =
     js ''Invalid file type '' @ [34] @ (case ext of Some e \<Rightarrow> e | None \<Rightarrow> js ''undefined'')
       @ [34] @ js ''. Please upload MP4, AVI, MOV, or MKV files.''"

text \<open>
  How the promise of \<open>api.uploadVideo\<close> settles: resolved with the server's data (and the
  \<open>detail\<close> it may carry), or rejected with an error message.
\<close>

datatype api_answer = Resolved VideoUploadInfo "js_string option" | Rejected js_string

text \<open>
  What a call of \<open>handleUpload\<close> does: the uploader state it leaves, the files it posted
  to the server, and the calls of \<open>onUploadComplete\<close>.
\<close>

record upload_run =
  ur_state :: uploader_state
  ur_requests :: "js_string list"
  ur_completed :: "VideoUploadInfo list"

text \<open>\<open>data.detail || 'Upload failed'\<close>: an absent or empty detail gives the default.\<close>

definition detail_or_default :: "js_string option \<Rightarrow> js_string" where
  "detail_or_default detail =
     (case detail of
        Some d \<Rightarrow> if d \<noteq> [] then d else js ''Upload failed''
      | None \<Rightarrow> js ''Upload failed'')"

text \<open>
  \<open>handleUpload\<close>, given the file's name, the progress reports of the transfer and the way
  the request settles. The validation comes first and returns early; \<open>!fileExtension\<close>
  holds for \<open>undefined\<close> and for the empty string.
\<close>

definition handleUpload ::
  "(js_string \<Rightarrow> js_string) \<Rightarrow> js_string \<Rightarrow> nat list \<Rightarrow> api_answer \<Rightarrow> uploader_state
     \<Rightarrow> upload_run" where
  "handleUpload unicode_lower name progress answer s =
     (let ext = fileExtension unicode_lower name in
      if ext = None \<or> ext = Some [] \<or> the ext \<notin> set validExtensions
      then \<lparr>ur_state = s\<lparr>error := Some (invalid_type_message ext), uploadStatus := Failed\<rparr>,
            ur_requests = [], ur_completed = []\<rparr>
      else
        let s1 = s\<lparr>isUploading := True, uploadStatus := Uploading, error := None,
                   uploadProgress := 0\<rparr>;
            s2 = fold (\<lambda>p st. st\<lparr>uploadProgress := p\<rparr>) progress s1
        in (case answer of
              Resolved data detail \<Rightarrow>
                if vi_success data
                then \<lparr>ur_state = s2\<lparr>uploadStatus := Success, isUploading := False\<rparr>,
                      ur_requests = [name], ur_completed = [data]\<rparr>
                else \<lparr>ur_state = s2\<lparr>error := Some (detail_or_default detail),
                                      uploadStatus := Failed, isUploading := False\<rparr>,
                      ur_requests = [name], ur_completed = []\<rparr>
            | Rejected msg \<Rightarrow>
                \<lparr>ur_state = s2\<lparr>error := Some msg, uploadStatus := Failed, isUploading := False\<rparr>,
                 ur_requests = [name], ur_completed = []\<rparr>))"

text \<open>
  The file extension as claim C10 words it: the substring after the final dot of the name.
  A name without a dot has none.
\<close>

definition after_final_dot :: "js_string \<Rightarrow> js_string option" where
  "after_final_dot name =
     (if of_char CHR ''.'' \<in> set name
      then Some (rev (takeWhile (\<lambda>u. u \<noteq> of_char CHR ''.'') (rev name)))
      else None)"

section \<open>Zone detection (README.md, Algorithms Used, 1. Zone Detection)\<close>

text \<open>A detector box, in the coordinates of the zone polygons.\<close>

record BoundingBox =
  bb_x1 :: real
  bb_y1 :: real
  bb_x2 :: real
  bb_y2 :: real
  bb_confidence :: real

text \<open>
  The two geometric helpers the listings call, \<open>point_in_polygon(centroid, zone_polygon)\<close>
  and \<open>calculate_bbox_zone_overlap(bbox, zone_polygon)\<close>, are parameters of the model.
\<close>

record geometry =
  point_in_polygon :: "Point \<Rightarrow> Point list \<Rightarrow> bool"
  calculate_bbox_zone_overlap :: "BoundingBox \<Rightarrow> Point list \<Rightarrow> real"

text \<open>\<open>centroid = ((x1 + x2) / 2, (y1 + y2) / 2)\<close>\<close>

definition centroid :: "BoundingBox \<Rightarrow> Point" where
  "centroid bbox = \<lparr>pt_x = (bb_x1 bbox + bb_x2 bbox) / 2, pt_y = (bb_y1 bbox + bb_y2 bbox) / 2\<rparr>"

text \<open>\<open>CUSTOMER_ZONE_OVERLAP_THRESHOLD = 0.20\<close> (README.md, Configuration).\<close>

definition CUSTOMER_ZONE_OVERLAP_THRESHOLD :: real where
  "CUSTOMER_ZONE_OVERLAP_THRESHOLD = 20 / 100"

text \<open>The body of the staff-zone listing, for one detection: a centroid inside the polygon
  sets the flag.\<close>

definition staff_step :: "geometry \<Rightarrow> Point list \<Rightarrow> BoundingBox \<Rightarrow> bool \<Rightarrow> bool" where
  "staff_step g zone_polygon bbox zone_active =
     (if point_in_polygon g (centroid bbox) zone_polygon then True else zone_active)"

text \<open>The body of the customer-zone listing, for one detection: an overlap of at least the
  threshold adds one to the count.\<close>

definition customer_step :: "geometry \<Rightarrow> Point list \<Rightarrow> BoundingBox \<Rightarrow> int \<Rightarrow> int" where
  "customer_step g zone_polygon bbox person_count =
     (let overlap = calculate_bbox_zone_overlap g bbox zone_polygon
      in if overlap \<ge> CUSTOMER_ZONE_OVERLAP_THRESHOLD then person_count + 1 else person_count)"

text \<open>
  Modelled from the spec: the evaluation of a presence zone in one frame (spec 4.2). The
  listing shows what is done for one detection; the loop over the detections of the frame
  is in the backend module \<open>app.py\<close>, of which README.md prints only the listings. The
  flag starts from \<open>False\<close>, the state the spec gives a zone in a frame without detections.
\<close>

definition staff_zone_active :: "geometry \<Rightarrow> Point list \<Rightarrow> BoundingBox list \<Rightarrow> bool" where
  "staff_zone_active g zone_polygon detections = fold (staff_step g zone_polygon) detections False"

text \<open>
  Modelled from the spec: the evaluation of an occupancy zone in one frame (spec 4.2), the
  customer-zone listing run over the detections of the frame; the loop is in \<open>app.py\<close>.
  The count starts from \<open>0\<close>.
\<close>

definition customer_zone_count :: "geometry \<Rightarrow> Point list \<Rightarrow> BoundingBox list \<Rightarrow> int" where
  "customer_zone_count g zone_polygon detections = fold (customer_step g zone_polygon) detections 0"

datatype zone_state = Active bool | Count int

text \<open>
  Modelled from the spec: the state of a zone in a frame, a flag for a presence (staff)
  zone and a count for an occupancy (customer) zone (spec 3, \<open>zone_states\<close>); the code that
  tells the two kinds apart is in \<open>app.py\<close>.
\<close>

definition evaluate_zone :: "geometry \<Rightarrow> Zone \<Rightarrow> BoundingBox list \<Rightarrow> zone_state" where
  "evaluate_zone g z detections =
     (case zone_type z of
        Staff \<Rightarrow> Active (staff_zone_active g (zone_points z) detections)
      | Customer \<Rightarrow> Count (customer_zone_count g (zone_points z) detections))"

text \<open>
  Modelled from the spec: the states of all configured zones in one frame, by zone name
  (spec 3, \<open>zone_states\<close> of a frame record); the code that fills the frame records is in
  \<open>app.py\<close>.
\<close>

definition frame_zone_states ::
  "geometry \<Rightarrow> Zone list \<Rightarrow> BoundingBox list \<Rightarrow> (string \<times> zone_state) list" where
  "frame_zone_states g zs detections = map (\<lambda>z. (zone_name z, evaluate_zone g z detections)) zs"

text \<open>
  Modelled from the spec: the zone states of every frame of a video, each frame evaluated
  on its own (spec 4.2, no memory between frames); the frame loop is in \<open>app.py\<close>.
\<close>

definition video_zone_states ::
  "geometry \<Rightarrow> Zone list \<Rightarrow> BoundingBox list list \<Rightarrow> (string \<times> zone_state) list list" where
  "video_zone_states g zs frames = map (frame_zone_states g zs) frames"


text \<open>Modelled from the spec: the frame's total is the number of detector boxes
  (\<open>total_detections = len(boxes)\<close>); the code that fills the frame records is in the
  backend module \<open>app.py\<close>.\<close>

definition total_detections :: "BoundingBox list \<Rightarrow> int" where
  "total_detections detections = int (length detections)"

text \<open>A zone state as the number the exports carry: the count of a customer zone, and
  \<open>1\<close> or \<open>0\<close> for an active or inactive staff zone (the dashboard tests \<open>t.active === 1\<close>).\<close>

fun state_count :: "zone_state \<Rightarrow> int" where
  "state_count (Active b) = (if b then 1 else 0)"
| "state_count (Count n) = n"

section \<open>Sample inputs\<close>

text \<open>An uploaded video.\<close>

definition demo_video :: VideoUploadInfo where
  "demo_video =
     \<lparr>vi_success = True, vi_filename = ''shop.mp4'', vi_width = 1280, vi_height = 720,
      vi_fps = 30, vi_frames = 1500, vi_preview = ''/static/preview.jpg''\<rparr>"

text \<open>A session on the page: the finish button is pressed with two points, a third point
  is added and the zone is finished by a right click.\<close>

definition demo_session :: "event list" where
  "demo_session =
     [UploadComplete demo_video, StartZone [255, 0, 0],
      CanvasClick \<lparr>pt_x = 1/4, pt_y = 1/4\<rparr>, CanvasClick \<lparr>pt_x = 3/4, pt_y = 1/4\<rparr>,
      FinishZone,
      CanvasClick \<lparr>pt_x = 1/2, pt_y = 3/4\<rparr>, CanvasRightClick]"

definition demo_zone :: Zone where
  "demo_zone =
     \<lparr>zone_name = ''Zone 1'', zone_type = Customer,
      zone_points = [\<lparr>pt_x = 1/4, pt_y = 1/4\<rparr>, \<lparr>pt_x = 3/4, pt_y = 1/4\<rparr>,
                     \<lparr>pt_x = 1/2, pt_y = 3/4\<rparr>],
      zone_color = [255, 0, 0]\<rparr>"

text \<open>The page after the first four events: the zone in progress has two points.\<close>

definition two_point_state :: page_state where
  "two_point_state = run_events (take 4 demo_session) initial_state"

text \<open>
  The helpers' values for one polygon, the whole frame \<open>[(0,0), (1,0), (1,1), (0,1)]\<close>: a
  point is inside when both coordinates lie in \<open>[0, 1]\<close>, and the overlap ratio of a box
  is the area of its part inside the unit square over its own area.
\<close>

definition whole_frame :: "Point list" where
  "whole_frame = [\<lparr>pt_x = 0, pt_y = 0\<rparr>, \<lparr>pt_x = 1, pt_y = 0\<rparr>, \<lparr>pt_x = 1, pt_y = 1\<rparr>,
     \<lparr>pt_x = 0, pt_y = 1\<rparr>]"

definition whole_frame_geometry :: geometry where
  "whole_frame_geometry =
     \<lparr>point_in_polygon = (\<lambda>p poly. 0 \<le> pt_x p \<and> pt_x p \<le> 1 \<and> 0 \<le> pt_y p \<and> pt_y p \<le> 1),
      calculate_bbox_zone_overlap = (\<lambda>b poly.
        let w = max 0 (min (bb_x2 b) 1 - max (bb_x1 b) 0);
            h = max 0 (min (bb_y2 b) 1 - max (bb_y1 b) 0);
            area = (bb_x2 b - bb_x1 b) * (bb_y2 b - bb_y1 b)
        in if area > 0 then w * h / area else 0)\<rparr>"

text \<open>A staff zone and a customer zone over the whole frame, and a frame with two
  detections: one in the middle of the frame, one that hangs over its corner.\<close>

definition staff_room :: Zone where
  "staff_room = \<lparr>zone_name = ''Staff Room'', zone_type = Staff, zone_points = whole_frame,
     zone_color = [0, 0, 255]\<rparr>"

definition queue_area :: Zone where
  "queue_area = \<lparr>zone_name = ''Queue'', zone_type = Customer, zone_points = whole_frame,
     zone_color = [0, 255, 0]\<rparr>"

definition demo_detections :: "BoundingBox list" where
  "demo_detections =
     [\<lparr>bb_x1 = 4/10, bb_y1 = 4/10, bb_x2 = 6/10, bb_y2 = 6/10, bb_confidence = 9/10\<rparr>,
      \<lparr>bb_x1 = 9/10, bb_y1 = 9/10, bb_x2 = 15/10, bb_y2 = 15/10, bb_confidence = 1/2\<rparr>]"


section \<open>Properties of the application page: zones\<close>

lemma set_remove_index: "set (remove_index i xs) \<subseteq> set xs"
  unfolding remove_index_def by (auto simp: in_set_enumerate_eq)

lemma handleFinishZone_ok: "zones_ok s \<Longrightarrow> zones_ok (handleFinishZone s)"
  by (auto simp: zones_ok_def handleFinishZone_def split: option.splits)

lemma handle_zones_ok: "zones_ok s \<Longrightarrow> zones_ok (handle e s)"
proof (cases e)
  case FinishZone
  assume "zones_ok s"
  with FinishZone show ?thesis by (simp add: handleFinishZone_ok)
next
  case CanvasRightClick
  assume "zones_ok s"
  with CanvasRightClick handleFinishZone_ok[of s] show ?thesis
    by (auto simp: handleCanvasRightClick_def split: option.splits drawing_mode.splits)
next
  case (DeleteZone i)
  assume "zones_ok s"
  with DeleteZone set_remove_index[of i "zones s"] show ?thesis
    by (auto simp: zones_ok_def handleDeleteZone_def)
next
  case (CanvasClick p)
  assume "zones_ok s"
  with CanvasClick show ?thesis
    by (auto simp: zones_ok_def handleCanvasClick_def split: option.splits drawing_mode.splits)
qed (auto simp: zones_ok_def handleStartZone_def handleStartLine_def handleDeleteLine_def
      handleClearAll_def handleUploadComplete_def Let_def)

lemma run_events_zones_ok: "zones_ok s \<Longrightarrow> zones_ok (run_events es s)"
  unfolding run_events_def
  by (induction es arbitrary: s) (simp_all add: handle_zones_ok)

lemma initial_zones_ok: "zones_ok initial_state"
  by (simp add: zones_ok_def initial_state_def)

lemmas handler_defs =
  run_events_def initial_state_def handleUploadComplete_def handleStartZone_def
  handleStartLine_def handleCanvasClick_def handleFinishZone_def handleCanvasRightClick_def
  handleDeleteZone_def handleDeleteLine_def handleClearAll_def handleProcess_def
  show_nat.simps digit_char_def

text \<open>
  Claim C6. Whatever the user does on the page, every zone in the zone list, and so every
  zone of the request that starts a job, has at least three points. The finish-zone
  handler appends the zone in progress exactly when it has three points or more; with
  fewer (or with no zone in progress) it changes nothing at all.
\<close>

theorem finish_zone_min_three_points:
  "(\<forall>z \<in> set (zones (run_events es initial_state)). 3 \<le> length (zone_points z))
   \<and> (\<forall>req. handleProcess (run_events es initial_state) = Some req \<longrightarrow>
         (\<forall>z \<in> set (req_zones req). 3 \<le> length (zone_points z)))
   \<and> zones (handleFinishZone s) =
       (case currentZone s of
          Some z \<Rightarrow> if 3 \<le> length (zone_points z) then zones s @ [z] else zones s
        | None \<Rightarrow> zones s)
   \<and> ((\<forall>z. currentZone s = Some z \<longrightarrow> length (zone_points z) < 3) \<longrightarrow>
         handleFinishZone s = s)"
proof -
  have ok: "zones_ok (run_events es initial_state)"
    by (rule run_events_zones_ok [OF initial_zones_ok])
  have a: "\<forall>z \<in> set (zones (run_events es initial_state)). 3 \<le> length (zone_points z)"
    using ok by (simp add: zones_ok_def)
  have b: "\<forall>req. handleProcess (run_events es initial_state) = Some req \<longrightarrow>
         (\<forall>z \<in> set (req_zones req). 3 \<le> length (zone_points z))"
    using a by (auto simp: handleProcess_def split: option.splits)
  have c: "zones (handleFinishZone s) =
       (case currentZone s of
          Some z \<Rightarrow> if 3 \<le> length (zone_points z) then zones s @ [z] else zones s
        | None \<Rightarrow> zones s)"
    by (simp add: handleFinishZone_def split: option.splits)
  have d: "(\<forall>z. currentZone s = Some z \<longrightarrow> length (zone_points z) < 3) \<longrightarrow>
         handleFinishZone s = s"
    by (auto simp: handleFinishZone_def split: option.splits)
  from a b c d show ?thesis by blast
qed

theorem finish_zone_min_three_points_witness:
  "zones (run_events demo_session initial_state) = [demo_zone]
   \<and> 3 \<le> length (zone_points demo_zone)
   \<and> handleProcess (run_events demo_session initial_state) =
       Some \<lparr>req_filename = ''shop.mp4'', req_zones = [demo_zone], req_lines = []\<rparr>
   \<and> (\<exists>z. currentZone two_point_state = Some z \<and> length (zone_points z) = 2)
   \<and> handleFinishZone two_point_state = two_point_state
   \<and> zones two_point_state = []"
  using finish_zone_min_three_points [of demo_session two_point_state]
  by (simp add: two_point_state_def demo_session_def demo_zone_def demo_video_def handler_defs)

section \<open>Properties of the application page: counting lines\<close>

lemma origin_click_noop:
  "handleCanvasClick origin (handleStartLine col s) = handleStartLine col s"
  by (simp add: handleCanvasClick_def handleStartLine_def origin_def Let_def)

lemma origin_clicks_noop:
  "clicks (replicate n origin) (handleStartLine col s) = handleStartLine col s"
  unfolding clicks_def by (induction n) (simp_all add: origin_click_noop)

lemma start_then_end:
  assumes "pt_x p \<noteq> 0 \<or> pt_y p \<noteq> 0"
  shows "handleCanvasClick q (handleCanvasClick p (handleStartLine col s)) =
     s\<lparr>lines := lines s @ [\<lparr>line_name = new_line_name s, line_start = p, line_end = q, line_color = col\<rparr>],
       currentLine := None, drawingMode := None, lineName := []\<rparr>"
  using assms
  by (auto simp add: handleCanvasClick_def handleStartLine_def new_line_name_def Let_def)

lemma idle_click_noop: "drawingMode s = None \<Longrightarrow> handleCanvasClick r s = s"
  by (simp add: handleCanvasClick_def)

lemma idle_clicks_noop: "drawingMode s = None \<Longrightarrow> clicks rs s = s"
  unfolding clicks_def by (induction rs) (simp_all add: idle_click_noop)

lemma clicks_append: "clicks (ps @ qs) s = clicks qs (clicks ps s)"
  by (simp add: clicks_def)

lemma start_click_keeps_lines:
  "lines (handleCanvasClick p (handleStartLine col s)) = lines s"
  by (simp add: handleCanvasClick_def handleStartLine_def Let_def)

text \<open>
  Claim C9, as stated, says that after a first click at exactly \<open>(0,0)\<close> no line is ever
  appended. It fails: the click at \<open>(0,0)\<close> leaves the placeholder in place, the next
  click becomes the start and the third click completes the line.
\<close>

theorem line_origin_first_click_counterexample:
  "lines (run_events [StartLine [0, 255, 0], CanvasClick \<lparr>pt_x = 0, pt_y = 0\<rparr>,
           CanvasClick \<lparr>pt_x = 1/2, pt_y = 1/2\<rparr>, CanvasClick \<lparr>pt_x = 3/4, pt_y = 3/4\<rparr>]
         initial_state) =
     [\<lparr>line_name = ''Line 1'', line_start = \<lparr>pt_x = 1/2, pt_y = 1/2\<rparr>,
       line_end = \<lparr>pt_x = 3/4, pt_y = 3/4\<rparr>, line_color = [0, 255, 0]\<rparr>]"
  by (simp add: handler_defs)

text \<open>
  Claim C9, amended. In line-drawing mode a click at exactly \<open>(0,0)\<close>, made while the start
  is still the \<open>(0,0)\<close> placeholder, leaves the page state as it was: as long as every
  click so far is \<open>(0,0)\<close>, no line is appended. The first click with \<open>x \<noteq> 0\<close> or
  \<open>y \<noteq> 0\<close> becomes the start (the lines are still unchanged), the click after it appends
  exactly one line with that start and that end, and later clicks change nothing.
\<close>

theorem line_start_placeholder:
  "clicks (replicate n origin) (handleStartLine col s) = handleStartLine col s
   \<and> lines (clicks (replicate n origin) (handleStartLine col s)) = lines s
   \<and> (pt_x p \<noteq> 0 \<or> pt_y p \<noteq> 0 \<longrightarrow>
        lines (clicks (replicate n origin @ [p]) (handleStartLine col s)) = lines s
        \<and> lines (clicks (replicate n origin @ [p, q]) (handleStartLine col s)) =
            lines s @ [\<lparr>line_name = new_line_name s, line_start = p, line_end = q,
                         line_color = col\<rparr>]
        \<and> clicks (replicate n origin @ [p, q] @ rest) (handleStartLine col s) =
            clicks (replicate n origin @ [p, q]) (handleStartLine col s))"
proof -
  let ?s0 = "handleStartLine col s"
  have a: "clicks (replicate n origin) ?s0 = ?s0"
    by (rule origin_clicks_noop)
  have b: "lines (clicks (replicate n origin) ?s0) = lines s"
    unfolding a by (simp add: handleStartLine_def Let_def)
  have c: "lines (clicks (replicate n origin @ [p]) ?s0) = lines s"
    by (simp add: clicks_append a) (simp add: clicks_def start_click_keeps_lines)
  have d: "clicks (replicate n origin @ [p, q]) ?s0 = handleCanvasClick q (handleCanvasClick p ?s0)"
    by (simp add: clicks_append a) (simp add: clicks_def)
  {
    assume nz: "pt_x p \<noteq> 0 \<or> pt_y p \<noteq> 0"
    have e: "lines (clicks (replicate n origin @ [p, q]) ?s0) =
            lines s @ [\<lparr>line_name = new_line_name s, line_start = p, line_end = q,
                         line_color = col\<rparr>]"
      by (simp add: d start_then_end [OF nz])
    have idle: "drawingMode (clicks (replicate n origin @ [p, q]) ?s0) = None"
      by (simp add: d start_then_end [OF nz])
    have f: "clicks (replicate n origin @ [p, q] @ rest) ?s0 =
            clicks (replicate n origin @ [p, q]) ?s0"
      using idle_clicks_noop [OF idle, of rest] clicks_append [of "replicate n origin @ [p, q]" rest ?s0]
      by simp
    note e f
  }
  with a b c show ?thesis by blast
qed

theorem line_start_placeholder_witness:
  "pt_y \<lparr>pt_x = 0, pt_y = 2/5\<rparr> \<noteq> 0
   \<and> lines (clicks [origin, origin, \<lparr>pt_x = 0, pt_y = 2/5\<rparr>, \<lparr>pt_x = 1, pt_y = 3/5\<rparr>,
                     \<lparr>pt_x = 1/2, pt_y = 1/2\<rparr>]
          (handleStartLine [0, 0, 255] initial_state)) =
       [\<lparr>line_name = ''Line 1'', line_start = \<lparr>pt_x = 0, pt_y = 2/5\<rparr>,
         line_end = \<lparr>pt_x = 1, pt_y = 3/5\<rparr>, line_color = [0, 0, 255]\<rparr>]"
  using line_start_placeholder [of 2 "[0, 0, 255]" initial_state "\<lparr>pt_x = 0, pt_y = 2/5\<rparr>"
      "\<lparr>pt_x = 1, pt_y = 3/5\<rparr>" "[\<lparr>pt_x = 1/2, pt_y = 1/2\<rparr>]"]
  by (simp add: numeral_2_eq_2 new_line_name_def initial_state_def show_nat.simps digit_char_def)

section \<open>Properties of the uploader\<close>

lemma split_on_no_sep: "c \<notin> set s \<Longrightarrow> split_on c s = [s]"
  by (induction s) auto

text \<open>
  Claim C10 holds the uploader to the file extension, the substring after the final dot,
  and so does the comment in the code (\<open>Validate by file extension\<close>). The code misses the
  name without a dot: \<open>split('.')\<close> then returns the whole name as its only segment, and
  the name itself is taken for the extension. A file named \<open>mp4\<close> has no extension and is
  posted to the server all the same, whatever the runtime's case mapping, the progress of
  the transfer, the server's answer and the state of the uploader.
\<close>

theorem upload_dotless_name_posted:
  "after_final_dot (js ''mp4'') = None
   \<and> fileExtension unicode_lower (js ''mp4'') = Some (js ''mp4'')
   \<and> ur_requests (handleUpload unicode_lower (js ''mp4'') progress answer s) = [js ''mp4'']"
proof -
  have dot: "of_char CHR ''.'' \<notin> set (js ''mp4'')"
    by (simp add: js_def)
  have a: "after_final_dot (js ''mp4'') = None"
    using dot by (simp add: after_final_dot_def)
  have low: "toLowerCase unicode_lower (js ''mp4'') = js ''mp4''"
    by (simp add: toLowerCase_def js_def ascii_lower_def)
  have b: "fileExtension unicode_lower (js ''mp4'') = Some (js ''mp4'')"
    using dot by (simp add: fileExtension_def split_on_no_sep pop_def low)
  have valid: "js ''mp4'' \<in> set validExtensions"
    by (simp add: validExtensions_def)
  have nonempty: "js ''mp4'' \<noteq> []"
    by (simp add: js_def)
  have c: "ur_requests (handleUpload unicode_lower (js ''mp4'') progress answer s) = [js ''mp4'']"
    using valid nonempty
    by (simp add: handleUpload_def b Let_def split: api_answer.splits)
  from a b c show ?thesis by blast
qed

section \<open>Properties of the zone detection\<close>

lemma fold_staff_step:
  "fold (staff_step g poly) ds acc \<longleftrightarrow> acc \<or> (\<exists>b \<in> set ds. point_in_polygon g (centroid b) poly)"
  by (induction ds arbitrary: acc) (auto simp: staff_step_def)

lemma fold_customer_step:
  "fold (customer_step g poly) ds acc =
     acc + int (length (filter (\<lambda>b. calculate_bbox_zone_overlap g b poly \<ge> CUSTOMER_ZONE_OVERLAP_THRESHOLD) ds))"
  by (induction ds arbitrary: acc) (auto simp: customer_step_def Let_def)

lemma staff_zone_active_iff:
  "staff_zone_active g poly ds \<longleftrightarrow> (\<exists>b \<in> set ds. point_in_polygon g (centroid b) poly)"
  by (simp add: staff_zone_active_def fold_staff_step)

lemma customer_zone_count_eq:
  "customer_zone_count g poly ds =
     int (length (filter (\<lambda>b. calculate_bbox_zone_overlap g b poly \<ge> CUSTOMER_ZONE_OVERLAP_THRESHOLD) ds))"
  by (simp add: customer_zone_count_def fold_customer_step)


lemmas zone_eval_defs =
  evaluate_zone_def staff_zone_active_def customer_zone_count_def staff_step_def
  customer_step_def centroid_def CUSTOMER_ZONE_OVERLAP_THRESHOLD_def frame_zone_states_def
  video_zone_states_def whole_frame_geometry_def whole_frame_def staff_room_def queue_area_def
  demo_detections_def Let_def




lemma evaluate_zone_bounds:
  "0 \<le> state_count (evaluate_zone g z ds) \<and> state_count (evaluate_zone g z ds) \<le> total_detections ds"
proof (cases "zone_type z")
  case Staff
  have "staff_zone_active g (zone_points z) ds \<Longrightarrow> 1 \<le> length ds"
    by (cases ds) (auto simp: staff_zone_active_iff)
  with Staff show ?thesis
    by (auto simp: evaluate_zone_def total_detections_def)
next
  case Customer
  then show ?thesis
    by (simp add: evaluate_zone_def total_detections_def customer_zone_count_eq)
qed

text \<open>
  Claim C5. In every frame, the count of every zone is at least \<open>0\<close> and at most the
  number of detector boxes of that frame.
\<close>

theorem zone_count_bounds:
  "(\<forall>(name, st) \<in> set (frame_zone_states g zs ds).
       0 \<le> state_count st \<and> state_count st \<le> total_detections ds)
   \<and> (\<forall>k < length frames. \<forall>(name, st) \<in> set (video_zone_states g zs frames ! k).
       0 \<le> state_count st \<and> state_count st \<le> total_detections (frames ! k))"
proof -
  have a: "\<forall>(name, st) \<in> set (frame_zone_states g zs ds).
       0 \<le> state_count st \<and> state_count st \<le> total_detections ds" for ds
    using evaluate_zone_bounds by (auto simp: frame_zone_states_def)
  have b: "\<forall>k < length frames. \<forall>(name, st) \<in> set (video_zone_states g zs frames ! k).
       0 \<le> state_count st \<and> state_count st \<le> total_detections (frames ! k)"
    using a by (simp add: video_zone_states_def)
  from a b show ?thesis by blast
qed

theorem zone_count_bounds_witness:
  "frame_zone_states whole_frame_geometry [staff_room, queue_area] demo_detections =
     [(''Staff Room'', Active True), (''Queue'', Count 1)]
   \<and> total_detections demo_detections = 2
   \<and> state_count (Active True) \<le> total_detections demo_detections
   \<and> state_count (Count 1) \<le> total_detections demo_detections
   \<and> video_zone_states whole_frame_geometry [staff_room, queue_area] [[], demo_detections] ! 0 =
       [(''Staff Room'', Active False), (''Queue'', Count 0)]
   \<and> total_detections ([[], demo_detections] ! 0) = 0"
  using zone_count_bounds [of whole_frame_geometry "[staff_room, queue_area]" demo_detections
      "[[], demo_detections]"]
  by (simp add: zone_eval_defs total_detections_def)

end
